theory Spec2Isabelle
  imports Main
begin

section \<open>ProjectMatch.TaxonomySelector: the selection state\<close>

text \<open>
  The module keeps two pieces of mutable state: \<open>self.selectedTaxonomy\<close> (undefined until
  a taxonomy container is clicked) and \<open>self.selectedItemsData\<close>, an object keyed by
  taxonomy name whose values are \<open>{name, itemsBySection}\<close>; \<open>itemsBySection\<close> is an object
  keyed by section name whose values are \<open>{name, title, items}\<close>, and \<open>items\<close> is an array
  of \<open>{name}\<close> objects.

  Modelling decisions.
  \<^item> Objects used as dictionaries are maps over their own properties. A read
    \<open>obj[key]\<close> goes through the prototype chain: it gives the own property when there is
    one, the property of \<open>Object.prototype\<close> when the key names one (\<open>constructor\<close>,
    \<open>toString\<close>, \<open>__proto__\<close>, ...), and undefined otherwise.
  \<^item> A JavaScript array may be sparse: \<open>delete a[i]\<close> removes the element at \<open>i\<close> and
    keeps the length. An array is a list of \<open>item option\<close>, \<open>None\<close> being a hole.
  \<^item> A function of the module that mutates the state returns the outcome of the call
    (\<open>Inr ()\<close> for a normal return, \<open>Inl TypeError\<close> for a thrown exception) together
    with the state it leaves behind: an exception does not undo earlier mutations.
  \<^item> Console output and the rendered HTML are not part of the state.
\<close>

datatype error = TypeError

record item =
  name :: string

record section_rec =
  sec_name :: string
  title :: "string option"
  items :: "item option list"

record taxonomy_data =
  tax_name :: string
  itemsBySection :: "string \<rightharpoonup> section_rec"

record state =
  selectedTaxonomy :: "string option"
  selectedItemsData :: "string \<rightharpoonup> taxonomy_data"

definition taxonomies :: "string list" where
  "taxonomies = [''skills'', ''learnSkills'', ''interests'']"

text \<open>Lines 18-19 and 48-53: one empty record per taxonomy name, no taxonomy selected.\<close>

definition init_selectedItemsData :: "string \<rightharpoonup> taxonomy_data" where
  "init_selectedItemsData =
     foldl (\<lambda>m taxonomyName.
              m(taxonomyName \<mapsto> \<lparr>tax_name = taxonomyName, itemsBySection = Map.empty\<rparr>))
       Map.empty taxonomies"

definition init_state :: state where
  "init_state = \<lparr>selectedTaxonomy = None, selectedItemsData = init_selectedItemsData\<rparr>"

text \<open>Lines 78-97: the click handler of a taxonomy container records the taxonomy.\<close>

definition clickTaxonomy :: "string \<Rightarrow> state \<Rightarrow> state" where
  "clickTaxonomy selectedTaxonomy' st = st\<lparr>selectedTaxonomy := Some selectedTaxonomy'\<rparr>"

subsection \<open>JavaScript primitives used by the operations\<close>

text \<open>
  The property names that every plain object inherits from \<open>Object.prototype\<close>
  (ECMAScript, with the legacy accessors that browsers define). Their values are
  functions, and for \<open>__proto__\<close> the prototype object itself: all of them are true as a
  condition, and none of them has a property \<open>items\<close> or \<open>itemsBySection\<close>.
\<close>

definition object_prototype_keys :: "string list" where
  "object_prototype_keys =
     [''constructor'', ''hasOwnProperty'', ''isPrototypeOf'', ''propertyIsEnumerable'',
      ''toLocaleString'', ''toString'', ''valueOf'', ''__proto__'',
      ''__defineGetter__'', ''__defineSetter__'', ''__lookupGetter__'', ''__lookupSetter__'']"

text \<open>The result of reading \<open>obj[key]\<close> on an object used as a dictionary.\<close>

datatype 'a lookup = Undefined | Own 'a | Inherited

definition get_property :: "(string \<rightharpoonup> 'a) \<Rightarrow> string \<Rightarrow> 'a lookup" where
  "get_property obj key =
     (case obj key of
        Some v \<Rightarrow> Own v
      | None \<Rightarrow> if key \<in> set object_prototype_keys then Inherited else Undefined)"

text \<open>
  \<open>Array.prototype.indexOf\<close> compares with strict equality and skips holes. The
  elements of \<open>items\<close> are objects and the value searched for is a string; an object is
  never strictly equal to a string.
\<close>

definition strict_equals_item_string :: "item \<Rightarrow> string \<Rightarrow> bool" where
  "strict_equals_item_string it s = False"

fun indexOf_from :: "item option list \<Rightarrow> string \<Rightarrow> int \<Rightarrow> int" where
  "indexOf_from [] s k = - 1"
| "indexOf_from (None # xs) s k = indexOf_from xs s (k + 1)"
| "indexOf_from (Some it # xs) s k =
     (if strict_equals_item_string it s then k else indexOf_from xs s (k + 1))"

definition indexOf :: "item option list \<Rightarrow> string \<Rightarrow> int" where
  "indexOf xs s = indexOf_from xs s 0"

text \<open>A number used as a condition is true unless it is zero.\<close>

definition truthy :: "int \<Rightarrow> bool" where
  "truthy n = (n \<noteq> 0)"

text \<open>\<open>a || b\<close> on values that are undefined or strings: the empty string is false.\<close>

definition js_or :: "string option \<Rightarrow> string option \<Rightarrow> string option" where
  "js_or a b = (case a of None \<Rightarrow> b | Some s \<Rightarrow> if s = [] then b else Some s)"

text \<open>A property key is a string; undefined used as a key is the string "undefined".\<close>

definition property_key :: "string option \<Rightarrow> string" where
  "property_key v = (case v of None \<Rightarrow> ''undefined'' | Some s \<Rightarrow> s)"

text \<open>\<open>delete a[i]\<close>: removes the element when \<open>i\<close> is an index of the array, and does
  nothing otherwise (there is no property \<open>-1\<close>); the length is kept.\<close>

definition delete_index :: "item option list \<Rightarrow> int \<Rightarrow> item option list" where
  "delete_index xs i = (if 0 \<le> i \<and> i < int (length xs) then xs[nat i := None] else xs)"

subsection \<open>The operations\<close>

text \<open>Lines 309-316. Reading \<open>.name\<close> of a hole throws.\<close>

fun indexOfNamedItems_from :: "item option list \<Rightarrow> string \<Rightarrow> int \<Rightarrow> error + int" where
  "indexOfNamedItems_from [] n i = Inr (- 1)"
| "indexOfNamedItems_from (None # xs) n i = Inl TypeError"
| "indexOfNamedItems_from (Some it # xs) n i =
     (if name it = n then Inr i else indexOfNamedItems_from xs n (i + 1))"

definition indexOfNamedItems :: "item option list \<Rightarrow> string \<Rightarrow> error + int" where
  "indexOfNamedItems xs n = indexOfNamedItems_from xs n 0"

text \<open>Lines 328-346. The only step that can throw inside the module is the read of
  \<open>self.selectedItemsData[selectedTaxonomy]['itemsBySection']\<close>: it throws when the
  first read gives undefined; on an inherited value the second read gives undefined
  and nothing is thrown.\<close>

definition renderSelected :: "string option \<Rightarrow> state \<Rightarrow> error + unit" where
  "renderSelected arg st =
     (case get_property (selectedItemsData st)
             (property_key (js_or arg (selectedTaxonomy st))) of
        Undefined \<Rightarrow> Inl TypeError
      | Own data \<Rightarrow> Inr ()
      | Inherited \<Rightarrow> Inr ())"

text \<open>
  Lines 234-281. \<open>data\<close> is \<open>self.selectedItemsData[taxonomyName]\<close>; when it is undefined,
  \<open>data['itemsBySection']\<close> throws, and when it is an inherited value,
  \<open>data['itemsBySection']\<close> is undefined and reading \<open>[parentItemName]\<close> of it throws.
  When \<open>data['itemsBySection'][parentItemName]\<close> is an inherited value the test of line
  258 is false, no record is created, \<open>['items']\<close> of that value is undefined and
  \<open>.indexOf\<close> throws at line 267.
\<close>

definition selectItem :: "string \<Rightarrow> string \<Rightarrow> string \<Rightarrow> state \<Rightarrow> (error + unit) \<times> state" where
  "selectItem taxonomyName parentItemName itemName st =
     (case get_property (selectedItemsData st) taxonomyName of
        Undefined \<Rightarrow> (Inl TypeError, st)
      | Inherited \<Rightarrow> (Inl TypeError, st)
      | Own data \<Rightarrow>
          (case get_property (itemsBySection data) parentItemName of
             Inherited \<Rightarrow> (Inl TypeError, st)
           | found \<Rightarrow>
               let sec = (case found of
                            Own r \<Rightarrow> r
                          | _ \<Rightarrow> \<lparr>sec_name = parentItemName, title = None, items = []\<rparr>);
                   sec' = (if truthy (indexOf (items sec) itemName)
                           then sec\<lparr>items := items sec @ [Some \<lparr>name = itemName\<rparr>]\<rparr>
                           else sec);
                   data' = data\<lparr>itemsBySection :=
                             (itemsBySection data)(parentItemName \<mapsto> sec')\<rparr>;
                   st' = st\<lparr>selectedItemsData :=
                             (selectedItemsData st)(taxonomyName \<mapsto> data')\<rparr>
               in (renderSelected None st', st')))"

text \<open>
  Lines 290-307. When \<open>data['itemsBySection'][parentItemName]\<close> is an inherited value
  the test of line 296 is true, \<open>['items']\<close> of it is undefined, and
  \<open>indexOfNamedItems\<close> throws on reading \<open>items.length\<close>.
\<close>

definition unselectItem :: "string \<Rightarrow> string \<Rightarrow> string \<Rightarrow> state \<Rightarrow> (error + unit) \<times> state" where
  "unselectItem taxonomyName parentItemName itemName st =
     (case get_property (selectedItemsData st) taxonomyName of
        Undefined \<Rightarrow> (Inl TypeError, st)
      | Inherited \<Rightarrow> (Inl TypeError, st)
      | Own data \<Rightarrow>
          (case get_property (itemsBySection data) parentItemName of
             Undefined \<Rightarrow> (renderSelected None st, st)
           | Inherited \<Rightarrow> (Inl TypeError, st)
           | Own sec \<Rightarrow>
               (case indexOfNamedItems (items sec) itemName of
                  Inl e \<Rightarrow> (Inl e, st)
                | Inr itemIndex \<Rightarrow>
                    let sec' = sec\<lparr>items := delete_index (items sec) itemIndex\<rparr>;
                        data' = data\<lparr>itemsBySection :=
                                  (itemsBySection data)(parentItemName \<mapsto> sec')\<rparr>;
                        st' = st\<lparr>selectedItemsData :=
                                  (selectedItemsData st)(taxonomyName \<mapsto> data')\<rparr>
                    in (renderSelected None st', st'))))"

subsection \<open>Sequences of calls\<close>

text \<open>
  The operations are called from \<open>onClick\<close> attributes, one call per event. A call that
  throws ends its own event only: the next call starts from the state it left.
\<close>

datatype call = SelectItem string string string | UnselectItem string string string

fun perform :: "call \<Rightarrow> state \<Rightarrow> (error + unit) \<times> state" where
  "perform (SelectItem t s i) st = selectItem t s i st"
| "perform (UnselectItem t s i) st = unselectItem t s i st"

fun perform_all :: "call list \<Rightarrow> state \<Rightarrow> state" where
  "perform_all [] st = st"
| "perform_all (c # cs) st = perform_all cs (snd (perform c st))"

fun outcomes :: "call list \<Rightarrow> state \<Rightarrow> (error + unit) list" where
  "outcomes [] st = []"
| "outcomes (c # cs) st = fst (perform c st) # outcomes cs (snd (perform c st))"


subsection \<open>Observations of the state\<close>

text \<open>The section records of a taxonomy, and the item array of a section (empty when
  the taxonomy or the section record is absent).\<close>

definition sections_of :: "state \<Rightarrow> string \<Rightarrow> (string \<rightharpoonup> section_rec)" where
  "sections_of st t = (case selectedItemsData st t of None \<Rightarrow> Map.empty
                       | Some data \<Rightarrow> itemsBySection data)"

definition items_of :: "state \<Rightarrow> string \<Rightarrow> string \<Rightarrow> item option list" where
  "items_of st t s = (case sections_of st t s of None \<Rightarrow> [] | Some sec \<Rightarrow> items sec)"

text \<open>The elements of a sparse array: what \<open>forEach\<close> and the template's \<open>each\<close> visit.\<close>

fun elements :: "item option list \<Rightarrow> item list" where
  "elements [] = []"
| "elements (None # xs) = elements xs"
| "elements (Some it # xs) = it # elements xs"


text \<open>Every known taxonomy has its record, no other key has one, and the selected
  taxonomy, once set, is a known one. This holds initially and is kept by every
  operation.\<close>

definition wf_state :: "state \<Rightarrow> bool" where
  "wf_state st \<longleftrightarrow>
     dom (selectedItemsData st) = set taxonomies \<and>
     (case selectedTaxonomy st of None \<Rightarrow> True | Some t \<Rightarrow> t \<in> set taxonomies)"

section \<open>Basic facts about the operations\<close>

lemmas ops_defs = selectItem_def unselectItem_def indexOf_def truthy_def
  strict_equals_item_string_def renderSelected_def js_or_def property_key_def
  indexOfNamedItems_def delete_index_def get_property_def object_prototype_keys_def Let_def

lemmas init_defs = init_state_def init_selectedItemsData_def taxonomies_def clickTaxonomy_def

lemmas run_defs = ops_defs init_defs items_of_def sections_of_def

subsection \<open>Reading a property\<close>

lemma get_property_Some: "obj key = Some v \<Longrightarrow> get_property obj key = Own v"
  by (simp add: get_property_def)

lemma get_property_plain:
  "obj key = None \<Longrightarrow> key \<notin> set object_prototype_keys \<Longrightarrow> get_property obj key = Undefined"
  by (simp add: get_property_def)

lemma get_property_inherited:
  "obj key = None \<Longrightarrow> key \<in> set object_prototype_keys \<Longrightarrow> get_property obj key = Inherited"
  by (simp add: get_property_def)

lemma get_property_Own_iff: "get_property obj key = Own v \<longleftrightarrow> obj key = Some v"
  by (simp add: get_property_def split: option.splits)

subsection \<open>The duplicate check of selectItem\<close>

text \<open>\<open>items.indexOf(itemName)\<close> looks for a string among objects: it finds nothing, and
  its result \<open>-1\<close> is true as a condition.\<close>

lemma indexOf_from_never: "indexOf_from xs s k = - 1"
  by (induction xs s k rule: indexOf_from.induct) (simp_all add: strict_equals_item_string_def)

lemma truthy_indexOf: "truthy (indexOf xs s)"
  by (simp add: truthy_def indexOf_def indexOf_from_never)

subsection \<open>selectItem\<close>

lemma selectItem_unknown:
  "selectedItemsData st t = None \<Longrightarrow> selectItem t s i st = (Inl TypeError, st)"
  by (simp add: selectItem_def get_property_def)

lemma selectItem_inherited:
  assumes "selectedItemsData st t = Some data" and "itemsBySection data s = None"
    and "s \<in> set object_prototype_keys"
  shows "selectItem t s i st = (Inl TypeError, st)"
  using assms by (simp add: selectItem_def get_property_def)

lemma snd_selectItem:
  assumes "selectedItemsData st t = Some data" and "s \<notin> set object_prototype_keys"
  shows "snd (selectItem t s i st) =
         st\<lparr>selectedItemsData := (selectedItemsData st)(t \<mapsto>
              data\<lparr>itemsBySection := (itemsBySection data)(s \<mapsto>
                (case itemsBySection data s of
                   None \<Rightarrow> \<lparr>sec_name = s, title = None, items = [Some \<lparr>name = i\<rparr>]\<rparr>
                 | Some r \<Rightarrow> r\<lparr>items := items r @ [Some \<lparr>name = i\<rparr>]\<rparr>))\<rparr>)\<rparr>"
  using assms
  by (simp add: selectItem_def get_property_def Let_def truthy_indexOf split: option.splits)

lemma fst_selectItem:
  "fst (selectItem t s i st) =
     (if selectedItemsData st t = None \<or>
         (sections_of st t s = None \<and> s \<in> set object_prototype_keys)
      then Inl TypeError
      else renderSelected None (snd (selectItem t s i st)))"
  by (simp add: selectItem_def get_property_def sections_of_def Let_def split: option.splits)

lemma sections_of_selectItem:
  assumes "selectedItemsData st t \<noteq> None" and "s \<notin> set object_prototype_keys"
  shows "sections_of (snd (selectItem t s i st)) t' =
         (if t' = t
          then (sections_of st t)(s \<mapsto>
                 (case sections_of st t s of
                    None \<Rightarrow> \<lparr>sec_name = s, title = None, items = [Some \<lparr>name = i\<rparr>]\<rparr>
                  | Some r \<Rightarrow> r\<lparr>items := items r @ [Some \<lparr>name = i\<rparr>]\<rparr>))
          else sections_of st t')"
proof -
  from assms(1) obtain data where d: "selectedItemsData st t = Some data" by auto
  show ?thesis
    by (simp add: snd_selectItem [OF d assms(2)] sections_of_def d)
qed

lemma items_of_selectItem:
  assumes "selectedItemsData st t \<noteq> None" and "s \<notin> set object_prototype_keys"
  shows "items_of (snd (selectItem t s i st)) t' s' =
         (if t' = t \<and> s' = s then items_of st t s @ [Some \<lparr>name = i\<rparr>]
          else items_of st t' s')"
  by (simp add: items_of_def sections_of_selectItem [OF assms] split: option.splits)

lemma dom_selectItem:
  "dom (selectedItemsData (snd (selectItem t s i st))) = dom (selectedItemsData st)"
  by (auto simp add: selectItem_def get_property_def Let_def split: option.splits if_splits)

lemma selectedTaxonomy_selectItem:
  "selectedTaxonomy (snd (selectItem t s i st)) = selectedTaxonomy st"
  by (simp add: selectItem_def get_property_def Let_def split: option.splits)

subsection \<open>unselectItem\<close>

lemma unselectItem_unknown:
  "selectedItemsData st t = None \<Longrightarrow> unselectItem t s i st = (Inl TypeError, st)"
  by (simp add: unselectItem_def get_property_def)

lemma sections_of_unselectItem:
  "sections_of (snd (unselectItem t s i st)) t' =
     (if t' = t
      then (case sections_of st t s of
              None \<Rightarrow> sections_of st t
            | Some sec \<Rightarrow>
                (case indexOfNamedItems (items sec) i of
                   Inl e \<Rightarrow> sections_of st t
                 | Inr k \<Rightarrow> (sections_of st t)(s \<mapsto> sec\<lparr>items := delete_index (items sec) k\<rparr>)))
      else sections_of st t')"
  by (simp add: unselectItem_def get_property_def sections_of_def Let_def
      split: option.splits sum.splits)


lemma dom_unselectItem:
  "dom (selectedItemsData (snd (unselectItem t s i st))) = dom (selectedItemsData st)"
  by (auto simp add: unselectItem_def get_property_def Let_def
      split: option.splits sum.splits if_splits)

lemma selectedTaxonomy_unselectItem:
  "selectedTaxonomy (snd (unselectItem t s i st)) = selectedTaxonomy st"
  by (simp add: unselectItem_def get_property_def Let_def split: option.splits sum.splits)

subsection \<open>Well-formed states\<close>

lemma wf_state_init: "wf_state init_state"
  by (auto simp add: wf_state_def init_defs)

lemma wf_state_clickTaxonomy:
  "wf_state st \<Longrightarrow> t \<in> set taxonomies \<Longrightarrow> wf_state (clickTaxonomy t st)"
  by (simp add: wf_state_def clickTaxonomy_def)

lemma wf_state_perform: "wf_state st \<Longrightarrow> wf_state (snd (perform c st))"
  by (cases c)
    (simp_all add: wf_state_def dom_selectItem dom_unselectItem
      selectedTaxonomy_selectItem selectedTaxonomy_unselectItem)

lemma wf_state_perform_all: "wf_state st \<Longrightarrow> wf_state (perform_all cs st)"
  by (induction cs arbitrary: st) (simp_all add: wf_state_perform)

lemma undefined_not_taxonomy: "''undefined'' \<notin> set taxonomies"
  by (simp add: taxonomies_def)

lemma undefined_not_inherited: "''undefined'' \<notin> set object_prototype_keys"
  by (simp add: object_prototype_keys_def)

text \<open>In a well-formed state the re-rendering throws exactly when no taxonomy has been
  selected yet: \<open>self.selectedItemsData[undefined]\<close> is undefined.\<close>

lemma renderSelected_wf:
  assumes "wf_state st"
  shows "renderSelected None st = (if selectedTaxonomy st \<noteq> None then Inr () else Inl TypeError)"
proof (cases "selectedTaxonomy st")
  case None
  have "''undefined'' \<notin> dom (selectedItemsData st)"
    using assms undefined_not_taxonomy by (simp add: wf_state_def)
  then have "get_property (selectedItemsData st) ''undefined'' = Undefined"
    using undefined_not_inherited by (auto simp add: get_property_def split: option.splits)
  then show ?thesis using None
    by (simp add: renderSelected_def js_or_def property_key_def)
next
  case (Some t)
  then have "t \<in> dom (selectedItemsData st)" using assms by (simp add: wf_state_def)
  then obtain data where "get_property (selectedItemsData st) t = Own data"
    by (auto simp add: get_property_def)
  then show ?thesis using Some
    by (simp add: renderSelected_def js_or_def property_key_def)
qed

text \<open>The full account of how a selectItem call ends in a well-formed state.\<close>

lemma fst_selectItem_wf:
  assumes "wf_state st"
  shows "fst (selectItem t s i st) =
           (if t \<in> set taxonomies \<and> selectedTaxonomy st \<noteq> None \<and>
               (sections_of st t s \<noteq> None \<or> s \<notin> set object_prototype_keys)
            then Inr () else Inl TypeError)"
proof -
  have "wf_state (snd (perform (SelectItem t s i) st))"
    using assms by (rule wf_state_perform)
  then have "wf_state (snd (selectItem t s i st))" by simp
  from renderSelected_wf [OF this]
  have r: "renderSelected None (snd (selectItem t s i st)) =
             (if selectedTaxonomy st \<noteq> None then Inr () else Inl TypeError)"
    by (simp add: selectedTaxonomy_selectItem)
  have k: "selectedItemsData st t = None \<longleftrightarrow> t \<notin> set taxonomies"
    using assms by (auto simp add: wf_state_def)
  show ?thesis
    unfolding fst_selectItem r k by auto
qed

subsection \<open>indexOfNamedItems on an array without holes\<close>

lemma indexOfNamedItems_from_absent:
  "n \<notin> name ` set xs \<Longrightarrow> indexOfNamedItems_from (map Some xs) n k = Inr (- 1)"
  by (induction xs arbitrary: k) auto

lemma indexOfNamedItems_from_present:
  "n \<in> name ` set xs \<Longrightarrow>
   \<exists>j<length xs. indexOfNamedItems_from (map Some xs) n k = Inr (k + int j) \<and>
                  name (xs ! j) = n \<and> (\<forall>m<j. name (xs ! m) \<noteq> n)"
proof (induction xs arbitrary: k)
  case Nil
  then show ?case by simp
next
  case (Cons x xs)
  show ?case
  proof (cases "name x = n")
    case True
    then show ?thesis by (intro exI [of _ 0]) simp
  next
    case False
    with Cons.prems have "n \<in> name ` set xs" by auto
    from Cons.IH [OF this, of "k + 1"] obtain j where j: "j < length xs"
      "indexOfNamedItems_from (map Some xs) n (k + 1) = Inr (k + 1 + int j)"
      "name (xs ! j) = n" "\<forall>m<j. name (xs ! m) \<noteq> n" by blast
    show ?thesis
    proof (intro exI [of _ "Suc j"] conjI allI impI)
      show "Suc j < length (x # xs)" using j(1) by simp
      show "indexOfNamedItems_from (map Some (x # xs)) n k = Inr (k + int (Suc j))"
        using False j(2) by simp
      show "name ((x # xs) ! Suc j) = n" using j(3) by simp
      fix m assume "m < Suc j"
      then show "name ((x # xs) ! m) \<noteq> n"
        using False j(4) by (cases m) auto
    qed
  qed
qed

text \<open>On an array of items without holes the search returns the position of the first
  item of that name, and \<open>-1\<close> when there is none.\<close>

lemma indexOfNamedItems_without_holes:
  "(n \<in> name ` set xs \<longrightarrow>
      (\<exists>j<length xs. indexOfNamedItems (map Some xs) n = Inr (int j) \<and>
                     name (xs ! j) = n \<and> (\<forall>m<j. name (xs ! m) \<noteq> n))) \<and>
   (n \<notin> name ` set xs \<longrightarrow> indexOfNamedItems (map Some xs) n = Inr (- 1))"
  using indexOfNamedItems_from_present [of n xs 0] indexOfNamedItems_from_absent [of n xs 0]
  by (simp add: indexOfNamedItems_def)

lemma indexOfNamedItems_examples:
  "indexOfNamedItems [Some \<lparr>name = ''a''\<rparr>, Some \<lparr>name = ''b''\<rparr>] ''b'' = Inr 1 \<and>
   indexOfNamedItems [] ''x'' = Inr (- 1)"
  by (simp add: indexOfNamedItems_def)

text \<open>A hole met before any match makes the search throw.\<close>

lemma indexOfNamedItems_from_hole:
  "n \<notin> name ` set xs \<Longrightarrow> indexOfNamedItems_from (map Some xs @ None # ys) n k = Inl TypeError"
  by (induction xs arbitrary: k) auto

subsection \<open>Sequences of selections\<close>

lemma elements_append: "elements (xs @ ys) = elements xs @ elements ys"
  by (induction xs rule: elements.induct) simp_all

lemma dom_perform: "dom (selectedItemsData (snd (perform c st))) = dom (selectedItemsData st)"
  by (cases c) (simp_all add: dom_selectItem dom_unselectItem)






subsection \<open>Section records\<close>




subsection \<open>What the operations leave alone\<close>

lemma selectedItemsData_selectItem_other:
  "t' \<noteq> t \<Longrightarrow> selectedItemsData (snd (selectItem t s i st)) t' = selectedItemsData st t'"
  by (simp add: selectItem_def get_property_def Let_def split: option.splits)

lemma selectedItemsData_unselectItem_other:
  "t' \<noteq> t \<Longrightarrow> selectedItemsData (snd (unselectItem t s i st)) t' = selectedItemsData st t'"
  by (simp add: unselectItem_def get_property_def Let_def split: option.splits sum.splits)

lemma sections_of_selectItem_other:
  "s' \<noteq> s \<Longrightarrow> sections_of (snd (selectItem t s i st)) t s' = sections_of st t s'"
  by (simp add: selectItem_def get_property_def sections_of_def Let_def split: option.splits)

lemma sections_of_unselectItem_other:
  "s' \<noteq> s \<Longrightarrow> sections_of (snd (unselectItem t s i st)) t s' = sections_of st t s'"
  by (simp add: sections_of_unselectItem split: option.splits sum.splits)

subsection \<open>Removal in a sequence without holes\<close>

text \<open>While no removal has happened in a section its sequence has no hole; there, for a
  section name that \<open>Object.prototype\<close> does not define, an unselectItem of a name that
  is not selected changes nothing, and a selectItem of a fresh name followed by its
  unselectItem leaves the old elements and one trailing hole.\<close>

lemma delete_index_minus1: "delete_index xs (- 1) = xs"
  by (simp add: delete_index_def)

lemma items_of_map_Some_cases:
  assumes "items_of st t s = map Some xs"
  shows "sections_of st t s = None \<or>
         (\<exists>sec. sections_of st t s = Some sec \<and> items sec = map Some xs)"
  using assms by (auto simp add: items_of_def split: option.splits)

lemma unselectItem_absent_without_holes:
  assumes wf: "wf_state st" and sel: "selectedTaxonomy st \<noteq> None"
    and t: "t \<in> set taxonomies" and plain: "s \<notin> set object_prototype_keys"
    and its: "items_of st t s = map Some xs" and absent: "i \<notin> name ` set xs"
  shows "unselectItem t s i st = (Inr (), st)"
proof -
  from wf t obtain data where d: "selectedItemsData st t = Some data"
    by (auto simp add: wf_state_def)
  have r: "renderSelected None st = Inr ()"
    using renderSelected_wf [OF wf] sel by simp
  from items_of_map_Some_cases [OF its] show ?thesis
  proof
    assume "sections_of st t s = None"
    then have "itemsBySection data s = None" using d by (simp add: sections_of_def)
    then show ?thesis using d r plain by (simp add: unselectItem_def get_property_def)
  next
    assume "\<exists>sec. sections_of st t s = Some sec \<and> items sec = map Some xs"
    then obtain sec where sec: "itemsBySection data s = Some sec" "items sec = map Some xs"
      using d by (auto simp add: sections_of_def)
    have idx: "indexOfNamedItems (items sec) i = Inr (- 1)"
      using absent by (simp add: sec(2) indexOfNamedItems_def indexOfNamedItems_from_absent)
    have "(itemsBySection data)(s \<mapsto> sec) = itemsBySection data"
      using sec(1) by (rule map_upd_triv)
    moreover have "(selectedItemsData st)(t \<mapsto> data) = selectedItemsData st"
      using d by (rule map_upd_triv)
    ultimately show ?thesis
      using d sec(1) idx r
      by (simp add: unselectItem_def get_property_def delete_index_minus1)
  qed
qed

lemma indexOfNamedItems_from_snoc:
  "i \<notin> name ` set xs \<Longrightarrow>
   indexOfNamedItems_from (map Some xs @ [Some \<lparr>name = i\<rparr>]) i k = Inr (k + int (length xs))"
  by (induction xs arbitrary: k) auto

lemma select_then_unselect_fresh_item:
  assumes known: "selectedItemsData st t \<noteq> None" and plain: "s \<notin> set object_prototype_keys"
    and its: "items_of st t s = map Some xs" and fresh: "i \<notin> name ` set xs"
  shows "items_of (snd (unselectItem t s i (snd (selectItem t s i st)))) t s
           = items_of st t s @ [None]"
proof -
  let ?st = "snd (selectItem t s i st)"
  have a: "items_of ?st t s = map Some xs @ [Some \<lparr>name = i\<rparr>]"
    using items_of_selectItem [OF known plain, of i t s] its by simp
  then obtain sec where sec: "sections_of ?st t s = Some sec"
      "items sec = map Some xs @ [Some \<lparr>name = i\<rparr>]"
    by (auto simp add: items_of_def split: option.splits)
  have idx: "indexOfNamedItems (items sec) i = Inr (int (length xs))"
    using fresh by (simp add: sec(2) indexOfNamedItems_def indexOfNamedItems_from_snoc)
  have "delete_index (items sec) (int (length xs)) = map Some xs @ [None]"
    using list_update_length [of "map Some xs" "Some \<lparr>name = i\<rparr>" "[]" None]
    by (simp add: delete_index_def sec(2))
  then show ?thesis
    using sec(1) idx its by (simp add: items_of_def sections_of_unselectItem)
qed

section \<open>The claims\<close>

text \<open>
  C1. The claim: selecting the same (taxonomy, section, item) twice gives the same
  selection state as selecting it once, an item name already present is not appended
  again. The code does not behave so: starting from the initial state with the taxonomy
  "skills" clicked, \<open>selectItem("skills","Languages","Go")\<close> leaves the item sequence
  \<open>[{name:"Go"}]\<close>, and the same call made a second time leaves
  \<open>[{name:"Go"},{name:"Go"}]\<close>; neither call throws.
\<close>

theorem selectItem_twice_appends_twice:
  "items_of (perform_all [SelectItem ''skills'' ''Languages'' ''Go'']
       (clickTaxonomy ''skills'' init_state)) ''skills'' ''Languages''
     = [Some \<lparr>name = ''Go''\<rparr>] \<and>
   items_of (perform_all [SelectItem ''skills'' ''Languages'' ''Go'',
                          SelectItem ''skills'' ''Languages'' ''Go'']
       (clickTaxonomy ''skills'' init_state)) ''skills'' ''Languages''
     = [Some \<lparr>name = ''Go''\<rparr>, Some \<lparr>name = ''Go''\<rparr>] \<and>
   outcomes [SelectItem ''skills'' ''Languages'' ''Go'',
             SelectItem ''skills'' ''Languages'' ''Go'']
       (clickTaxonomy ''skills'' init_state) = [Inr (), Inr ()]"
  by (simp add: run_defs)

text \<open>
  C2. The claim: selectItem followed by unselectItem on the same triple returns the
  section's item sequence to its contents before the selectItem call. The code does not
  behave so once the section holds a hole. After selecting and unselecting "Go" the
  sequence of "Languages" is one hole; selecting "Rust" then makes it
  \<open>[hole, {name:"Rust"}]\<close>, and unselecting "Rust" throws a TypeError while reading the
  name of the hole, so that "Rust" stays selected.
\<close>

theorem select_unselect_after_removal:
  "items_of (perform_all [SelectItem ''skills'' ''Languages'' ''Go'',
                          UnselectItem ''skills'' ''Languages'' ''Go'']
       (clickTaxonomy ''skills'' init_state)) ''skills'' ''Languages'' = [None] \<and>
   items_of (perform_all [SelectItem ''skills'' ''Languages'' ''Go'',
                          UnselectItem ''skills'' ''Languages'' ''Go'',
                          SelectItem ''skills'' ''Languages'' ''Rust'',
                          UnselectItem ''skills'' ''Languages'' ''Rust'']
       (clickTaxonomy ''skills'' init_state)) ''skills'' ''Languages''
     = [None, Some \<lparr>name = ''Rust''\<rparr>] \<and>
   outcomes [SelectItem ''skills'' ''Languages'' ''Go'',
             UnselectItem ''skills'' ''Languages'' ''Go'',
             SelectItem ''skills'' ''Languages'' ''Rust'',
             UnselectItem ''skills'' ''Languages'' ''Rust'']
       (clickTaxonomy ''skills'' init_state) = [Inr (), Inr (), Inr (), Inl TypeError]"
  by (simp add: run_defs)

text \<open>
  C3. Starting from the initial state (whatever taxonomy is selected for display, none
  included), \<open>selectItem("skills","Languages","Go")\<close>, \<open>selectItem("skills","Languages","Rust")\<close>,
  \<open>unselectItem("skills","Languages","Go")\<close> leave the item sequence of "Languages" in
  "skills" with the single element \<open>{name:"Rust"}\<close>. The array itself has length two:
  the removal leaves a hole at index 0 and "Rust" at index 1.
\<close>

theorem end_to_end_scenario:
  "items_of (perform_all [SelectItem ''skills'' ''Languages'' ''Go'',
                          SelectItem ''skills'' ''Languages'' ''Rust'',
                          UnselectItem ''skills'' ''Languages'' ''Go'']
               (init_state\<lparr>selectedTaxonomy := sel\<rparr>)) ''skills'' ''Languages''
     = [None, Some \<lparr>name = ''Rust''\<rparr>] \<and>
   elements (items_of (perform_all [SelectItem ''skills'' ''Languages'' ''Go'',
                          SelectItem ''skills'' ''Languages'' ''Rust'',
                          UnselectItem ''skills'' ''Languages'' ''Go'']
               (init_state\<lparr>selectedTaxonomy := sel\<rparr>)) ''skills'' ''Languages'')
     = [\<lparr>name = ''Rust''\<rparr>]"
  by (simp add: run_defs)

text \<open>
  C4. The claim: unselectItem on a section that does not exist, or that holds no item of
  the given name, leaves the state unchanged and does not throw. The code leaves the
  state unchanged but can throw: after selecting and unselecting "Go" the sequence of
  "Languages" is one hole, it holds no item named "Rust", and
  \<open>unselectItem("skills","Languages","Rust")\<close> throws a TypeError.
\<close>

theorem unselectItem_missing_item_throws:
  "items_of (perform_all [SelectItem ''skills'' ''Languages'' ''Go'',
                          UnselectItem ''skills'' ''Languages'' ''Go'']
       (clickTaxonomy ''skills'' init_state)) ''skills'' ''Languages'' = [None] \<and>
   unselectItem ''skills'' ''Languages'' ''Rust''
     (perform_all [SelectItem ''skills'' ''Languages'' ''Go'',
                   UnselectItem ''skills'' ''Languages'' ''Go'']
        (clickTaxonomy ''skills'' init_state))
   = (Inl TypeError,
      perform_all [SelectItem ''skills'' ''Languages'' ''Go'',
                   UnselectItem ''skills'' ''Languages'' ''Go'']
        (clickTaxonomy ''skills'' init_state))"
  by (simp add: run_defs)

text \<open>
  C5. The claim: \<open>indexOfNamedItems(items, name)\<close> returns the position of the first
  element of \<open>items\<close> whose name field equals \<open>name\<close>, and \<open>-1\<close> when there is none. The
  code does not behave so on the arrays that unselectItem itself produces. After
  selecting "Go" and "Rust" and unselecting "Go" the sequence of "Languages" is
  \<open>[hole, {name:"Rust"}]\<close>; on it \<open>indexOfNamedItems(items, "Rust")\<close> throws a TypeError
  where the claim gives 1, and on \<open>[hole]\<close> a search for "x" throws where the claim
  gives \<open>-1\<close>.
\<close>

theorem indexOfNamedItems_throws_on_hole:
  "items_of (perform_all [SelectItem ''skills'' ''Languages'' ''Go'',
                          SelectItem ''skills'' ''Languages'' ''Rust'',
                          UnselectItem ''skills'' ''Languages'' ''Go'']
       (clickTaxonomy ''skills'' init_state)) ''skills'' ''Languages''
     = [None, Some \<lparr>name = ''Rust''\<rparr>] \<and>
   indexOfNamedItems [None, Some \<lparr>name = ''Rust''\<rparr>] ''Rust'' = Inl TypeError \<and>
   indexOfNamedItems [None] ''x'' = Inl TypeError"
  by (simp add: run_defs)

text \<open>
  C6. The claim: selectItem never throws, whatever its arguments, a taxonomy name outside
  the known set included. It fails: with "skills" selected for display,
  \<open>selectItem("hobbies","Languages","Go")\<close> throws a TypeError
  (\<open>self.selectedItemsData["hobbies"]\<close> is undefined); in the initial state, where no
  taxonomy is selected for display yet, \<open>selectItem("skills","Languages","Go")\<close> throws
  a TypeError in the re-rendering; and with "skills" selected for display,
  \<open>selectItem("skills","constructor","Go")\<close> throws a TypeError at \<open>.indexOf\<close>.
\<close>

theorem selectItem_throws_counterexample:
  "fst (selectItem ''hobbies'' ''Languages'' ''Go'' (clickTaxonomy ''skills'' init_state))
     = Inl TypeError \<and>
   fst (selectItem ''skills'' ''Languages'' ''Go'' init_state) = Inl TypeError \<and>
   fst (selectItem ''skills'' ''constructor'' ''Go'' (clickTaxonomy ''skills'' init_state))
     = Inl TypeError"
  by (simp add: run_defs)

text \<open>
  C6, as amended. In a well-formed state selectItem returns normally, for every item
  name, when the taxonomy name is one of the known taxonomies, a taxonomy is selected
  for display and the section name is not the name of a property inherited from
  \<open>Object.prototype\<close>; with a taxonomy name outside the known set it throws a TypeError
  and leaves the state unchanged.
\<close>

theorem selectItem_outcome:
  assumes "wf_state st"
  shows "(t \<in> set taxonomies \<and> selectedTaxonomy st \<noteq> None \<and> s \<notin> set object_prototype_keys
            \<longrightarrow> fst (selectItem t s i st) = Inr ()) \<and>
         (t \<notin> set taxonomies \<longrightarrow> selectItem t s i st = (Inl TypeError, st))"
proof (intro conjI impI)
  assume "t \<in> set taxonomies \<and> selectedTaxonomy st \<noteq> None \<and> s \<notin> set object_prototype_keys"
  then show "fst (selectItem t s i st) = Inr ()"
    by (simp add: fst_selectItem_wf [OF assms])
next
  assume "t \<notin> set taxonomies"
  then have "selectedItemsData st t = None"
    using assms by (auto simp add: wf_state_def)
  then show "selectItem t s i st = (Inl TypeError, st)"
    by (rule selectItem_unknown)
qed

theorem selectItem_outcome_witness:
  "wf_state (clickTaxonomy ''skills'' init_state) \<and>
   fst (selectItem ''skills'' ''Languages'' ''Go'' (clickTaxonomy ''skills'' init_state)) = Inr () \<and>
   selectItem ''hobbies'' ''Languages'' ''Go'' (clickTaxonomy ''skills'' init_state)
     = (Inl TypeError, clickTaxonomy ''skills'' init_state)"
proof -
  have w: "wf_state (clickTaxonomy ''skills'' init_state)"
    by (auto simp add: wf_state_def init_defs)
  from selectItem_outcome [OF w, of "''skills''" "''Languages''" "''Go''"]
    selectItem_outcome [OF w, of "''hobbies''" "''Languages''" "''Go''"]
  show ?thesis using w
    by (simp add: taxonomies_def clickTaxonomy_def object_prototype_keys_def)
qed

text \<open>
  C7. The claim: the duplicate check misses an existing item at position 0 and
  recognises one at any other position, which is then not appended. The code does not
  recognise it: with \<open>[{name:"Go"}, {name:"Rust"}]\<close> selected, "Rust" is at position 1,
  and selecting "Rust" again appends it again.
\<close>

theorem selectItem_duplicate_at_position_one:
  "items_of (perform_all [SelectItem ''skills'' ''Languages'' ''Go'',
                          SelectItem ''skills'' ''Languages'' ''Rust'']
       init_state) ''skills'' ''Languages''
     = [Some \<lparr>name = ''Go''\<rparr>, Some \<lparr>name = ''Rust''\<rparr>] \<and>
   items_of (snd (selectItem ''skills'' ''Languages'' ''Rust''
       (perform_all [SelectItem ''skills'' ''Languages'' ''Go'',
                     SelectItem ''skills'' ''Languages'' ''Rust''] init_state)))
     ''skills'' ''Languages''
     = [Some \<lparr>name = ''Go''\<rparr>, Some \<lparr>name = ''Rust''\<rparr>, Some \<lparr>name = ''Rust''\<rparr>]"
  by (simp add: run_defs)







text \<open>
  C10. selectItem(t, s, i) and unselectItem(t, s, i) leave the record of every taxonomy
  other than \<open>t\<close> unchanged, and within \<open>t\<close> every section record under a name other
  than \<open>s\<close>.
\<close>

theorem operations_frame:
  "(t' \<noteq> t \<longrightarrow>
      selectedItemsData (snd (selectItem t s i st)) t' = selectedItemsData st t' \<and>
      selectedItemsData (snd (unselectItem t s i st)) t' = selectedItemsData st t') \<and>
   (s' \<noteq> s \<longrightarrow>
      sections_of (snd (selectItem t s i st)) t s' = sections_of st t s' \<and>
      sections_of (snd (unselectItem t s i st)) t s' = sections_of st t s')"
  by (simp add: selectedItemsData_selectItem_other selectedItemsData_unselectItem_other
      sections_of_selectItem_other sections_of_unselectItem_other)

theorem operations_frame_witness:
  "''learnSkills'' \<noteq> ''skills'' \<and> ''Tools'' \<noteq> ''Languages'' \<and>
   selectedItemsData (snd (selectItem ''skills'' ''Languages'' ''Go''
       (perform_all [SelectItem ''skills'' ''Tools'' ''Vim'',
                     SelectItem ''learnSkills'' ''Languages'' ''Go'']
          (clickTaxonomy ''skills'' init_state)))) ''learnSkills''
     = selectedItemsData (perform_all [SelectItem ''skills'' ''Tools'' ''Vim'',
                     SelectItem ''learnSkills'' ''Languages'' ''Go'']
          (clickTaxonomy ''skills'' init_state)) ''learnSkills'' \<and>
   sections_of (snd (unselectItem ''skills'' ''Languages'' ''Go''
       (perform_all [SelectItem ''skills'' ''Tools'' ''Vim'',
                     SelectItem ''learnSkills'' ''Languages'' ''Go'']
          (clickTaxonomy ''skills'' init_state)))) ''skills'' ''Tools''
     = Some \<lparr>sec_name = ''Tools'', title = None, items = [Some \<lparr>name = ''Vim''\<rparr>]\<rparr>"
proof -
  let ?st = "perform_all [SelectItem ''skills'' ''Tools'' ''Vim'',
                     SelectItem ''learnSkills'' ''Languages'' ''Go'']
          (clickTaxonomy ''skills'' init_state)"
  have a: "''learnSkills'' \<noteq> ''skills''" and b: "''Tools'' \<noteq> ''Languages''" by simp_all
  have c: "sections_of ?st ''skills'' ''Tools''
             = Some \<lparr>sec_name = ''Tools'', title = None, items = [Some \<lparr>name = ''Vim''\<rparr>]\<rparr>"
    by (simp add: run_defs)
  from operations_frame [of "''learnSkills''" "''skills''" "''Languages''" "''Go''" ?st
         "''Tools''"]
  show ?thesis using a b c by simp
qed

end
